theory Spec2Isabelle
  imports Complex_Main
begin

section \<open>Hop records and the mocked hop source\<close>

text \<open>
  The interface \<^verbatim>\<open>NetworkHop\<close> of \<^verbatim>\<open>NetworkMap.tsx\<close>. Its field \<^verbatim>\<open>id\<close> is called
  \<open>hop_id\<close> here. JavaScript numbers that carry measurements (coordinates, latency) are
  modelled as reals: the code only compares them with the constants 20 and 100 and adds
  0.1 to a longitude, and a comparison of two finite doubles agrees with the comparison
  of the reals they denote.
\<close>

record NetworkHop =
  hop_id :: int
  ip :: string
  hostname :: string
  latitude :: real
  longitude :: real
  latency :: real
  country :: string
  city :: string

type_synonym lnglat = "real \<times> real"

definition mockTraceroute :: "string \<Rightarrow> NetworkHop list" where
  "mockTraceroute target =
     [\<lparr>hop_id = 1, ip = ''192.168.1.1'', hostname = ''local-gateway'',
        latitude = 40.7128, longitude = - 74.0060, latency = 1.2,
        country = ''USA'', city = ''New York''\<rparr>,
      \<lparr>hop_id = 2, ip = ''10.0.0.1'', hostname = ''isp-router-1'',
        latitude = 40.7589, longitude = - 73.9851, latency = 12.5,
        country = ''USA'', city = ''New York''\<rparr>,
      \<lparr>hop_id = 3, ip = ''72.14.215.85'', hostname = ''google-edge'',
        latitude = 37.4419, longitude = - 122.1430, latency = 45.3,
        country = ''USA'', city = ''Palo Alto''\<rparr>,
      \<lparr>hop_id = 4, ip = ''142.250.191.14'', hostname = target,
        latitude = 37.4419, longitude = - 122.1430, latency = 47.8,
        country = ''USA'', city = ''Palo Alto''\<rparr>]"

section \<open>The map surface\<close>

text \<open>
  What the component can observe and change of the \<^verbatim>\<open>mapboxgl.Map\<close> it holds in
  \<^verbatim>\<open>map.current\<close>: the style's sources and layers (by identifier, in insertion order),
  the document's elements of class \<^verbatim>\<open>hop-marker\<close> (in document order), the camera
  centre, and the \<^verbatim>\<open>fitBounds\<close> commands the engine accepted so far. A popup is the record of the
  values interpolated into its HTML. \<open>bounds_extend\<close> is \<^verbatim>\<open>LngLatBounds.extend\<close>, and
  \<open>None\<close> is the box of \<^verbatim>\<open>new LngLatBounds()\<close> that was never extended. \<open>easeTo\<close>
  records the new centre only, \<open>fitBounds\<close> the accepted command only: the animations
  themselves are the engine's.
\<close>

record popup =
  popup_hop_id :: int
  popup_hostname :: string
  popup_ip :: string
  popup_city :: string
  popup_country :: string
  popup_latency_color :: string
  popup_latency :: real

record marker =
  background :: string
  box_shadow :: string
  lngLat :: lnglat
  marker_popup :: popup

type_synonym bounds = "(lnglat \<times> lnglat) option"

record surface =
  accessToken :: string
  center :: lnglat
  sources :: "(string \<times> lnglat list) list"
  layers :: "(string \<times> string) list"
  markers :: "marker list"
  fitCalls :: "(bounds \<times> nat) list"

text \<open>
  The rendering engine is not part of the repository. Two of its behaviours can be run
  into by the component's code. What \<^verbatim>\<open>addSource\<close> does with an identifier that is
  already in use is a parameter of the model: the engine either throws or leaves the
  style as it is. \<^verbatim>\<open>fitBounds\<close> on bounds that were never extended raises a
  \<^verbatim>\<open>TypeError\<close>, since the corners of such a box are undefined; this is the error
  \<open>EmptyBounds\<close>.
\<close>

datatype dup_policy = DupThrows | DupIgnored

datatype error = SourceExists string | EmptyBounds

definition getSource :: "string \<Rightarrow> surface \<Rightarrow> lnglat list option" where
  "getSource name s = map_of (sources s) name"

definition getLayer :: "string \<Rightarrow> surface \<Rightarrow> string option" where
  "getLayer name s = map_of (layers s) name"

definition addSource :: "dup_policy \<Rightarrow> string \<Rightarrow> lnglat list \<Rightarrow> surface \<Rightarrow> error + surface" where
  "addSource pol name coordinates s =
     (case getSource name s of
        None \<Rightarrow> Inr (s\<lparr>sources := sources s @ [(name, coordinates)]\<rparr>)
      | Some _ \<Rightarrow> (case pol of DupThrows \<Rightarrow> Inl (SourceExists name) | DupIgnored \<Rightarrow> Inr s))"

definition addLayer :: "string \<Rightarrow> string \<Rightarrow> surface \<Rightarrow> surface" where
  "addLayer name src s =
     (case getLayer name s of
        None \<Rightarrow> s\<lparr>layers := layers s @ [(name, src)]\<rparr>
      | Some _ \<Rightarrow> s)"

definition removeLayer :: "string \<Rightarrow> surface \<Rightarrow> surface" where
  "removeLayer name s = s\<lparr>layers := filter (\<lambda>l. fst l \<noteq> name) (layers s)\<rparr>"

definition removeSource :: "string \<Rightarrow> surface \<Rightarrow> surface" where
  "removeSource name s = s\<lparr>sources := filter (\<lambda>l. fst l \<noteq> name) (sources s)\<rparr>"

definition bounds_extend :: "bounds \<Rightarrow> lnglat \<Rightarrow> bounds" where
  "bounds_extend b c =
     (case b of
        None \<Rightarrow> Some (c, c)
      | Some (sw, ne) \<Rightarrow>
          Some ((min (fst sw) (fst c), min (snd sw) (snd c)),
                (max (fst ne) (fst c), max (snd ne) (snd c))))"

definition fitBounds :: "bounds \<Rightarrow> nat \<Rightarrow> surface \<Rightarrow> error + surface" where
  "fitBounds b padding s =
     (case b of
        None \<Rightarrow> Inl EmptyBounds
      | Some _ \<Rightarrow> Inr (s\<lparr>fitCalls := fitCalls s @ [(b, padding)]\<rparr>))"

definition easeTo :: "lnglat \<Rightarrow> surface \<Rightarrow> surface" where
  "easeTo c s = s\<lparr>center := c\<rparr>"

definition new_map :: "string \<Rightarrow> surface" where
  "new_map token =
     \<lparr>accessToken = token, center = (0, 20), sources = [], layers = [], markers = [],
      fitCalls = []\<rparr>"

section \<open>Drawing and clearing the path overlay\<close>

text \<open>The two colour expressions of the marker callback in \<^verbatim>\<open>addNetworkPath\<close>.\<close>

definition marker_color :: "nat \<Rightarrow> nat \<Rightarrow> string" where
  "marker_color index len =
     (if index = 0 then ''#00ff00''
      else if int index = int len - 1 then ''#ff0040''
      else ''#00ffff'')"

definition popup_color :: "real \<Rightarrow> string" where
  "popup_color l =
     (if l < 20 then ''#00ff00'' else if l < 100 then ''#ffff00'' else ''#ff0040'')"

definition getLatencyColor :: "real \<Rightarrow> string" where
  "getLatencyColor l =
     (if l < 20 then ''text-latency-good''
      else if l < 100 then ''text-latency-warning''
      else ''text-latency-error'')"

text \<open>The body of the \<^verbatim>\<open>forEach\<close> callback: the marker built for one hop.\<close>

definition hop_marker :: "nat \<Rightarrow> nat \<Rightarrow> NetworkHop \<Rightarrow> marker" where
  "hop_marker len index hop =
     \<lparr>background = marker_color index len,
      box_shadow = marker_color index len,
      lngLat = (longitude hop, latitude hop),
      marker_popup =
        \<lparr>popup_hop_id = hop_id hop, popup_hostname = hostname hop, popup_ip = ip hop,
         popup_city = city hop, popup_country = country hop,
         popup_latency_color = popup_color (latency hop),
         popup_latency = latency hop\<rparr>\<rparr>"

text \<open>
  \<^verbatim>\<open>hopData.forEach((hop, index) => ...)\<close>: the markers are added in list order, the
  index counting from the given start.
\<close>

fun add_markers :: "nat \<Rightarrow> nat \<Rightarrow> NetworkHop list \<Rightarrow> surface \<Rightarrow> surface" where
  "add_markers len index [] s = s"
| "add_markers len index (hop # rest) s =
     add_markers len (Suc index) rest (s\<lparr>markers := markers s @ [hop_marker len index hop]\<rparr>)"

text \<open>
  \<^verbatim>\<open>addNetworkPath\<close>. The argument of type \<open>surface option\<close> is \<^verbatim>\<open>map.current\<close>. The
  result is \<open>Inr\<close> of the map when the function returns, and \<open>Inl\<close> of the exception
  and the map as it was left when an engine call raises: an exception of
  \<^verbatim>\<open>addSource\<close> leaves the function before anything was changed, one of
  \<^verbatim>\<open>fitBounds\<close> after the source, the layer and the markers were added.
\<close>

type_synonym draw_result = "(error \<times> surface option) + surface option"

definition addNetworkPath :: "dup_policy \<Rightarrow> NetworkHop list \<Rightarrow> surface option \<Rightarrow> draw_result" where
  "addNetworkPath pol hopData m =
     (case m of
        None \<Rightarrow> Inr None
      | Some s \<Rightarrow>
          (let coordinates = map (\<lambda>hop. (longitude hop, latitude hop)) hopData in
           case addSource pol ''network-path'' coordinates s of
             Inl e \<Rightarrow> Inl (e, Some s)
           | Inr s1 \<Rightarrow>
               (let s2 = addLayer ''network-path-line'' ''network-path'' s1;
                    s3 = add_markers (length hopData) 0 hopData s2;
                    b = foldl bounds_extend None coordinates
                in case fitBounds b 100 s3 of
                     Inl e \<Rightarrow> Inl (e, Some s3)
                   | Inr s4 \<Rightarrow> Inr (Some s4))))"

definition clearNetworkPath :: "surface option \<Rightarrow> surface option" where
  "clearNetworkPath m =
     (case m of
        None \<Rightarrow> None
      | Some s \<Rightarrow>
          (let s1 = (case getLayer ''network-path-line'' s of
                       None \<Rightarrow> s | Some _ \<Rightarrow> removeLayer ''network-path-line'' s);
               s2 = (case getSource ''network-path'' s1 of
                       None \<Rightarrow> s1 | Some _ \<Rightarrow> removeSource ''network-path'' s1)
           in Some (s2\<lparr>markers := []\<rparr>)))"

section \<open>The component and its scheduled callbacks\<close>

text \<open>
  The state of the \<^verbatim>\<open>NetworkMap\<close> component: the two refs, the React state variables,
  the notifications sent with \<^verbatim>\<open>toast\<close>, and the callbacks that are scheduled but have
  not run yet. A state setter is modelled as taking effect at once; the functional form
  \<^verbatim>\<open>setHops(prev => ...)\<close> reads the latest value, as React's update queue makes it do.

  An entry of \<open>timers\<close> is a call of \<^verbatim>\<open>executeTraceroute\<close> suspended at its
  \<^verbatim>\<open>await\<close>, with the delay in milliseconds given to \<^verbatim>\<open>setTimeout\<close> and the local
  variables of the call. An entry of \<open>frames\<close> is a \<^verbatim>\<open>rotateCamera\<close> closure handed to
  \<^verbatim>\<open>requestAnimationFrame\<close>, with the value of \<^verbatim>\<open>isTracing\<close> it closed over: the
  closure is created inside \<^verbatim>\<open>initializeMap\<close>, where \<^verbatim>\<open>isTracing\<close> is a constant of
  the render that created the handler, and it reschedules itself, not a newer closure.
  An exception that leaves the asynchronous \<^verbatim>\<open>executeTraceroute\<close> rejects its promise
  and is recorded in \<open>rejections\<close>.
\<close>

datatype toast = MapNotReady | TracingRoute string | TracerouteComplete nat string

record activation =
  act_target :: string
  mockHops :: "NetworkHop list"
  loop_i :: nat

record app =
  mapContainer :: bool
  map_ref :: "surface option"
  targetHost :: string
  isTracing :: bool
  hops :: "NetworkHop list"
  toasts :: "toast list"
  timers :: "(nat \<times> activation) list"
  frames :: "bool list"
  rejections :: "error list"

definition initial_app :: app where
  "initial_app =
     \<lparr>mapContainer = True, map_ref = None, targetHost = ''google.com'', isTracing = False,
      hops = [], toasts = [], timers = [], frames = [], rejections = []\<rparr>"

definition rotateCamera :: "bool \<Rightarrow> app \<Rightarrow> app" where
  "rotateCamera closed_isTracing st =
     (case map_ref st of
        None \<Rightarrow> st
      | Some s \<Rightarrow>
          if closed_isTracing then st
          else st\<lparr>map_ref := Some (easeTo (fst (center s) + 0.1, snd (center s)) s),
                  frames := frames st @ [closed_isTracing]\<rparr>)"

definition initializeMap :: "string \<Rightarrow> app \<Rightarrow> app" where
  "initializeMap token st =
     (if mapContainer st
      then rotateCamera (isTracing st) (st\<lparr>map_ref := Some (new_map token)\<rparr>)
      else st)"

text \<open>One animation frame: every scheduled closure runs once.\<close>

definition animationFrame :: "app \<Rightarrow> app" where
  "animationFrame st = foldl (\<lambda>st' c. rotateCamera c st') (st\<lparr>frames := []\<rparr>) (frames st)"

text \<open>
  \<^verbatim>\<open>executeTraceroute\<close> from the test of its \<^verbatim>\<open>for\<close> loop on: either the call suspends
  on a timer of 1000 ms, or the loop is over and the path is drawn.
\<close>

definition trace_from :: "dup_policy \<Rightarrow> activation \<Rightarrow> app \<Rightarrow> app" where
  "trace_from pol a st =
     (if loop_i a < length (mockHops a)
      then st\<lparr>timers := timers st @ [(1000, a)]\<rparr>
      else (case addNetworkPath pol (mockHops a) (map_ref st) of
              Inl (e, m) \<Rightarrow> st\<lparr>map_ref := m, rejections := rejections st @ [e]\<rparr>
            | Inr m \<Rightarrow>
                st\<lparr>map_ref := m, hops := mockHops a, isTracing := False,
                   toasts := toasts st @
                     [TracerouteComplete (length (mockHops a)) (act_target a)]\<rparr>))"

text \<open>
  The hop source is a parameter: the component calls \<open>mockTraceroute\<close>, which the
  theorems below instantiate it with.
\<close>

definition executeTraceroute :: "dup_policy \<Rightarrow> (string \<Rightarrow> NetworkHop list) \<Rightarrow> app \<Rightarrow> app" where
  "executeTraceroute pol fetch st =
     (case map_ref st of
        None \<Rightarrow> st\<lparr>toasts := toasts st @ [MapNotReady]\<rparr>
      | Some _ \<Rightarrow>
          (let st1 = st\<lparr>isTracing := True\<rparr>;
               st2 = st1\<lparr>map_ref := clearNetworkPath (map_ref st1)\<rparr>;
               st3 = st2\<lparr>toasts := toasts st2 @ [TracingRoute (targetHost st)]\<rparr>;
               hs = fetch (targetHost st);
               st4 = st3\<lparr>hops := []\<rparr>
           in trace_from pol \<lparr>act_target = targetHost st, mockHops = hs, loop_i = 0\<rparr> st4))"

text \<open>
  The \<open>k\<close>-th pending timer fires: the suspended call appends its hop, increments its
  index and goes back to the loop test. A call is only ever suspended under the loop
  test, so the index it reads the hop at is within the list.
\<close>

definition timerFired :: "dup_policy \<Rightarrow> nat \<Rightarrow> app \<Rightarrow> app" where
  "timerFired pol k st =
     (if k < length (timers st)
      then (let a = snd (timers st ! k);
                st1 = st\<lparr>timers := take k (timers st) @ drop (Suc k) (timers st)\<rparr>;
                st2 = st1\<lparr>hops := hops st1 @ [mockHops a ! loop_i a]\<rparr>
            in trace_from pol (a\<lparr>loop_i := loop_i a + 1\<rparr>) st2)
      else st)"

datatype event =
  InitializeMap string | TargetEdited string | TraceClicked | TimerFired nat | AnimationFrame

fun step :: "dup_policy \<Rightarrow> (string \<Rightarrow> NetworkHop list) \<Rightarrow> app \<Rightarrow> event \<Rightarrow> app" where
  "step pol fetch st (InitializeMap token) = initializeMap token st"
| "step pol fetch st (TargetEdited h) = st\<lparr>targetHost := h\<rparr>"
| "step pol fetch st TraceClicked = executeTraceroute pol fetch st"
| "step pol fetch st (TimerFired k) = timerFired pol k st"
| "step pol fetch st AnimationFrame = animationFrame st"

definition run :: "dup_policy \<Rightarrow> (string \<Rightarrow> NetworkHop list) \<Rightarrow> app \<Rightarrow> event list \<Rightarrow> app" where
  "run pol fetch st evs = foldl (step pol fetch) st evs"

text \<open>
  The \<^verbatim>\<open>disabled\<close> attribute of the Trace Route button:
  \<^verbatim>\<open>isTracing || !targetHost.trim()\<close>. White space is the ASCII white space.
\<close>

definition is_space :: "char \<Rightarrow> bool" where
  "is_space c = (c \<in> set [CHR '' '', CHR 0x09, CHR 0x0A, CHR 0x0B, CHR 0x0C, CHR 0x0D])"

definition trim :: "string \<Rightarrow> string" where
  "trim s = rev (dropWhile is_space (rev (dropWhile is_space s)))"

definition trace_button_disabled :: "app \<Rightarrow> bool" where
  "trace_button_disabled st = (isTracing st \<or> trim (targetHost st) = [])"

text \<open>The identifiers, geometry and markers of the overlay, without camera and log.\<close>

definition overlay :: "surface \<Rightarrow> (string \<times> lnglat list) list \<times> (string \<times> string) list \<times> marker list" where
  "overlay s = (sources s, layers s, markers s)"

text \<open>
  Names for the three marker colours, and helpers to read results: the map a call of
  \<open>addNetworkPath\<close> leaves behind, whether it returned or raised, and the exception it
  raised if any; a call of \<open>addNetworkPath\<close> after an earlier one (an exception of the
  earlier call ends the sequence), two calls with the same hops in a row, and the
  sequence that \<open>executeTraceroute\<close> runs (clear, later draw).
\<close>

definition origin_style :: string where
  "origin_style = ''#00ff00''"

definition destination_style :: string where
  "destination_style = ''#ff0040''"

definition relay_style :: string where
  "relay_style = ''#00ffff''"

definition result_surface :: "draw_result \<Rightarrow> surface option" where
  "result_surface r = (case r of Inl (e, m) \<Rightarrow> m | Inr m \<Rightarrow> m)"

definition raised :: "draw_result \<Rightarrow> error option" where
  "raised r = (case r of Inl (e, m) \<Rightarrow> Some e | Inr m \<Rightarrow> None)"

definition draw_then :: "dup_policy \<Rightarrow> NetworkHop list \<Rightarrow> draw_result \<Rightarrow> draw_result" where
  "draw_then pol hopData r =
     (case r of
        Inl x \<Rightarrow> Inl x
      | Inr m1 \<Rightarrow> addNetworkPath pol hopData m1)"

definition redraw_twice :: "dup_policy \<Rightarrow> NetworkHop list \<Rightarrow> surface option \<Rightarrow> draw_result" where
  "redraw_twice pol hopData m = draw_then pol hopData (addNetworkPath pol hopData m)"

definition clear_then_draw :: "dup_policy \<Rightarrow> NetworkHop list \<Rightarrow> surface option \<Rightarrow> draw_result" where
  "clear_then_draw pol hopData m = addNetworkPath pol hopData (clearNetworkPath m)"

text \<open>
  A state with the map initialised, a schedule in which a second trace is started while
  the first one is suspended on its timer (with the target edited in between, so that
  the two hop lists differ), and the host names shown by the markers on the map.
\<close>

definition ready_app :: app where
  "ready_app = initializeMap ''tok'' initial_app"

definition overlapping_traces :: "event list" where
  "overlapping_traces =
     [InitializeMap ''tok'', TargetEdited ''a.example'', TraceClicked, TimerFired 0,
      TargetEdited ''b.example'', TraceClicked,
      TimerFired 0, TimerFired 0, TimerFired 0, TimerFired 0, TimerFired 0, TimerFired 0,
      TimerFired 0]"

definition marker_hosts :: "app \<Rightarrow> string list" where
  "marker_hosts st =
     (case map_ref st of None \<Rightarrow> [] | Some s \<Rightarrow> map (\<lambda>m. popup_hostname (marker_popup m)) (markers s))"

section \<open>Facts about drawing and clearing\<close>

lemma add_markers_eq:
  "add_markers len i hs s =
     s\<lparr>markers := markers s @ map (\<lambda>(j, h). hop_marker len j h) (enumerate i hs)\<rparr>"
  by (induction hs arbitrary: i s) simp_all

lemma map_of_filter_other: "map_of (filter (\<lambda>l. fst l \<noteq> n) xs) n = None"
  by (induction xs) auto

lemma filter_absent: "map_of xs n = None \<Longrightarrow> filter (\<lambda>l. fst l \<noteq> n) xs = xs"
  by (induction xs) (auto split: if_splits)

lemma clearNetworkPath_Some:
  "clearNetworkPath (Some s) =
     Some (s\<lparr>sources := filter (\<lambda>l. fst l \<noteq> ''network-path'') (sources s),
            layers := filter (\<lambda>l. fst l \<noteq> ''network-path-line'') (layers s),
            markers := []\<rparr>)"
  by (cases "map_of (layers s) ''network-path-line''"; cases "map_of (sources s) ''network-path''")
     (simp_all add: clearNetworkPath_def getLayer_def getSource_def removeLayer_def
        removeSource_def filter_absent)

lemma bounds_extend_Some: "\<exists>b'. foldl bounds_extend (Some b) cs = Some b'"
  by (induction cs arbitrary: b) (auto simp: bounds_extend_def split: prod.splits)

lemma bounds_nonempty: "cs \<noteq> [] \<Longrightarrow> \<exists>b. foldl bounds_extend None cs = Some b"
  using bounds_extend_Some by (cases cs) (auto simp: bounds_extend_def)

lemma addNetworkPath_fresh:
  assumes "getSource ''network-path'' s = None" and "H \<noteq> []"
  shows "addNetworkPath pol H (Some s) =
     Inr (Some (s\<lparr>sources := sources s @ [(''network-path'', map (\<lambda>hop. (longitude hop, latitude hop)) H)],
                  layers := layers (addLayer ''network-path-line'' ''network-path'' s),
                  markers := markers s @ map (\<lambda>(j, h). hop_marker (length H) j h) (enumerate 0 H),
                  fitCalls := fitCalls s @ [(foldl bounds_extend None (map (\<lambda>hop. (longitude hop, latitude hop)) H), 100)]\<rparr>))"
proof -
  obtain b where b: "foldl bounds_extend None (map (\<lambda>hop. (longitude hop, latitude hop)) H) = Some b"
    using bounds_nonempty [of "map (\<lambda>hop. (longitude hop, latitude hop)) H"] assms(2) by auto
  show ?thesis
    using assms(1)
    by (cases "getLayer ''network-path-line'' s")
      (simp_all add: addNetworkPath_def addSource_def addLayer_def getLayer_def fitBounds_def
        add_markers_eq Let_def b)
qed

lemma addNetworkPath_fresh_Nil:
  assumes "getSource ''network-path'' s = None"
  shows "addNetworkPath pol [] (Some s) =
     Inl (EmptyBounds,
          Some (s\<lparr>sources := sources s @ [(''network-path'', [])],
                  layers := layers (addLayer ''network-path-line'' ''network-path'' s)\<rparr>))"
  using assms
  by (cases "getLayer ''network-path-line'' s")
     (simp_all add: addNetworkPath_def addSource_def addLayer_def getLayer_def fitBounds_def)

lemma getSource_cleared:
  "clearNetworkPath (Some s) = Some s' \<Longrightarrow> getSource ''network-path'' s' = None"
  by (auto simp: clearNetworkPath_Some getSource_def map_of_filter_other)

lemma getLayer_cleared:
  "clearNetworkPath (Some s) = Some s' \<Longrightarrow> getLayer ''network-path-line'' s' = None"
  by (auto simp: clearNetworkPath_Some getLayer_def map_of_filter_other)

lemma clear_then_draw_Some:
  assumes "H \<noteq> []"
  shows "clear_then_draw pol H (Some s) =
     Inr (Some (s\<lparr>sources := filter (\<lambda>l. fst l \<noteq> ''network-path'') (sources s) @
                     [(''network-path'', map (\<lambda>hop. (longitude hop, latitude hop)) H)],
                  layers := filter (\<lambda>l. fst l \<noteq> ''network-path-line'') (layers s) @
                     [(''network-path-line'', ''network-path'')],
                  markers := map (\<lambda>(j, h). hop_marker (length H) j h) (enumerate 0 H),
                  fitCalls := fitCalls s @
                     [(foldl bounds_extend None (map (\<lambda>hop. (longitude hop, latitude hop)) H), 100)]\<rparr>))"
proof -
  obtain s' where c: "clearNetworkPath (Some s) = Some s'"
    by (simp add: clearNetworkPath_Some)
  have src: "getSource ''network-path'' s' = None"
    using c by (rule getSource_cleared)
  have lay: "map_of (layers s') ''network-path-line'' = None"
    using getLayer_cleared [OF c] by (simp add: getLayer_def)
  have s': "s' = s\<lparr>sources := filter (\<lambda>l. fst l \<noteq> ''network-path'') (sources s),
            layers := filter (\<lambda>l. fst l \<noteq> ''network-path-line'') (layers s),
            markers := []\<rparr>"
    using c by (simp add: clearNetworkPath_Some)
  show ?thesis
    unfolding clear_then_draw_def c addNetworkPath_fresh [OF src assms]
    using lay by (simp add: addLayer_def getLayer_def s')
qed

lemma clear_then_draw_Nil:
  "clear_then_draw pol [] (Some s) =
     Inl (EmptyBounds,
          Some (s\<lparr>sources := filter (\<lambda>l. fst l \<noteq> ''network-path'') (sources s) @
                     [(''network-path'', [])],
                  layers := filter (\<lambda>l. fst l \<noteq> ''network-path-line'') (layers s) @
                     [(''network-path-line'', ''network-path'')],
                  markers := []\<rparr>))"
proof -
  obtain s' where c: "clearNetworkPath (Some s) = Some s'"
    by (simp add: clearNetworkPath_Some)
  have src: "getSource ''network-path'' s' = None"
    using c by (rule getSource_cleared)
  have lay: "map_of (layers s') ''network-path-line'' = None"
    using getLayer_cleared [OF c] by (simp add: getLayer_def)
  have s': "s' = s\<lparr>sources := filter (\<lambda>l. fst l \<noteq> ''network-path'') (sources s),
            layers := filter (\<lambda>l. fst l \<noteq> ''network-path-line'') (layers s),
            markers := []\<rparr>"
    using c by (simp add: clearNetworkPath_Some)
  show ?thesis
    unfolding clear_then_draw_def c addNetworkPath_fresh_Nil [OF src]
    using lay by (simp add: addLayer_def getLayer_def s')
qed

lemma lngLat_hop_markers:
  "map lngLat (map (\<lambda>(j, h). hop_marker len j h) (enumerate n H)) =
     map (\<lambda>hop. (longitude hop, latitude hop)) H"
  by (induction H arbitrary: n) (simp_all add: hop_marker_def)

lemma background_hop_markers:
  assumes "i < length H"
  shows "background (map (\<lambda>(j, h). hop_marker len j h) (enumerate 0 H) ! i) = marker_color i len"
  using assms by (simp add: nth_enumerate_eq hop_marker_def)

lemma filter_fst_eq_neq: "filter (\<lambda>l. fst l = n) (filter (\<lambda>l. fst l \<noteq> n) xs) = []"
  by (induction xs) auto

section \<open>Facts about runs of the scheduler\<close>

lemma run_Nil: "run pol fetch st [] = st"
  by (simp add: run_def)

lemma run_Cons: "run pol fetch st (e # evs) = run pol fetch (step pol fetch st e) evs"
  by (simp add: run_def)

lemma run_append: "run pol fetch st (evs @ evs') = run pol fetch (run pol fetch st evs) evs'"
  by (simp add: run_def)

lemma run_snoc: "run pol fetch st (evs @ [e]) = step pol fetch (run pol fetch st evs) e"
  by (simp add: run_def)

text \<open>
  One trace on its own: after the click and \<open>k\<close> timer firings the first \<open>k\<close> hops
  are in the list and the call waits on a timer of 1000 ms; after \<open>length H\<close> firings
  the path is drawn and the call is over.
\<close>

lemma trace_prefix:
  assumes "map_ref st = Some s" and "timers st = []" and "fetch (targetHost st) = H"
    and "k < length H"
  shows "run pol fetch st (TraceClicked # replicate k (TimerFired 0)) =
     st\<lparr>map_ref := clearNetworkPath (Some s), isTracing := True, hops := take k H,
        toasts := toasts st @ [TracingRoute (targetHost st)],
        timers := [(1000, \<lparr>act_target = targetHost st, mockHops = H, loop_i = k\<rparr>)]\<rparr>"
  using assms(4)
proof (induction k)
  case 0
  then show ?case
    using assms(1-3) by (simp add: run_Cons run_Nil executeTraceroute_def trace_from_def)
next
  case (Suc k)
  then have k: "k < length H" by simp
  have "run pol fetch st (TraceClicked # replicate (Suc k) (TimerFired 0)) =
      step pol fetch (run pol fetch st (TraceClicked # replicate k (TimerFired 0))) (TimerFired 0)"
    using run_snoc [of pol fetch st "TraceClicked # replicate k (TimerFired 0)" "TimerFired 0"]
    by (simp add: replicate_append_same)
  then show ?case
    using Suc.prems by (simp add: Suc.IH [OF k] timerFired_def trace_from_def
        take_Suc_conv_app_nth [OF k])
qed

lemma trace_complete:
  assumes "map_ref st = Some s" and "timers st = []" and "fetch (targetHost st) = H"
    and "clear_then_draw pol H (Some s) = Inr (Some s')"
  shows "run pol fetch st (TraceClicked # replicate (length H) (TimerFired 0)) =
     st\<lparr>map_ref := Some s', isTracing := False, hops := H,
        toasts := toasts st @ [TracingRoute (targetHost st),
          TracerouteComplete (length H) (targetHost st)],
        timers := []\<rparr>"
proof (cases H)
  case Nil
  then show ?thesis
    using assms(4) by (simp add: clear_then_draw_Nil)
next
  case (Cons h hs)
  then have k: "length hs < length H" by simp
  have "run pol fetch st (TraceClicked # replicate (length H) (TimerFired 0)) =
      step pol fetch (run pol fetch st (TraceClicked # replicate (length hs) (TimerFired 0))) (TimerFired 0)"
    using run_snoc [of pol fetch st "TraceClicked # replicate (length hs) (TimerFired 0)" "TimerFired 0"]
    by (simp add: replicate_append_same Cons)
  also have "\<dots> = st\<lparr>map_ref := Some s', isTracing := False, hops := H,
        toasts := toasts st @ [TracingRoute (targetHost st),
          TracerouteComplete (length H) (targetHost st)],
        timers := []\<rparr>"
    using assms(4) k
    by (simp add: trace_prefix [where fetch = fetch and st = st, OF assms(1-3) k] timerFired_def trace_from_def
        clear_then_draw_def take_Suc_conv_app_nth [OF k] Cons)
  finally show ?thesis .
qed

lemma ready_app_eq:
  "ready_app = initial_app\<lparr>map_ref := Some ((new_map ''tok'')\<lparr>center := (0.1, 20)\<rparr>), frames := [False]\<rparr>"
  by (simp add: ready_app_def initializeMap_def initial_app_def rotateCamera_def new_map_def easeTo_def)

lemmas eval_defs = run_Cons run_Nil initializeMap_def initial_app_def rotateCamera_def new_map_def easeTo_def
      executeTraceroute_def trace_from_def timerFired_def clearNetworkPath_def addNetworkPath_def
      addSource_def addLayer_def getSource_def getLayer_def removeLayer_def removeSource_def
      fitBounds_def bounds_extend_def animationFrame_def mockTraceroute_def marker_hosts_def Let_def hop_marker_def

section \<open>Latency bands\<close>

text \<open>
  Claim C5. The latency colour is chosen by half-open bands: a latency in [0, 20) gets
  the good colour, one in [20, 100) the warning colour, one of 100 or more the error
  colour; 19.9 is good, 20.0 and 99.9 are warning, 100.0 is error. This holds for the
  class name computed by \<open>getLatencyColor\<close> for the detail panel and for the colour of
  the latency text in a marker's popup, which is \<open>popup_color\<close> of the hop's latency.
\<close>

theorem latency_bands:
  "(0 \<le> l \<and> l < 20 \<longrightarrow>
      getLatencyColor l = ''text-latency-good'' \<and> popup_color l = ''#00ff00'') \<and>
   (20 \<le> l \<and> l < 100 \<longrightarrow>
      getLatencyColor l = ''text-latency-warning'' \<and> popup_color l = ''#ffff00'') \<and>
   (100 \<le> l \<longrightarrow>
      getLatencyColor l = ''text-latency-error'' \<and> popup_color l = ''#ff0040'') \<and>
   popup_latency_color (marker_popup (hop_marker n i h)) = popup_color (latency h) \<and>
   getLatencyColor 19.9 = ''text-latency-good'' \<and>
   getLatencyColor 20.0 = ''text-latency-warning'' \<and>
   getLatencyColor 99.9 = ''text-latency-warning'' \<and>
   getLatencyColor 100.0 = ''text-latency-error'' \<and>
   popup_color 19.9 = ''#00ff00'' \<and> popup_color 20.0 = ''#ffff00'' \<and>
   popup_color 99.9 = ''#ffff00'' \<and> popup_color 100.0 = ''#ff0040''"
  by (simp add: getLatencyColor_def popup_color_def hop_marker_def)

theorem latency_bands_witness:
  "(0 \<le> (12.5::real) \<and> (12.5::real) < 20) \<and> getLatencyColor 12.5 = ''text-latency-good'' \<and>
   (20 \<le> (45.3::real) \<and> (45.3::real) < 100) \<and> popup_color 45.3 = ''#ffff00'' \<and>
   (100 \<le> (250::real)) \<and> getLatencyColor 250 = ''text-latency-error''"
  using latency_bands [of "12.5"] latency_bands [of "45.3"] latency_bands [of 250]
  by simp

section \<open>A trace request before the map exists\<close>

text \<open>
  Claim C9. When \<open>executeTraceroute\<close> is called while \<^verbatim>\<open>map.current\<close> is null, the only
  effect is the notification "Map not ready": \<open>isTracing\<close> keeps its value (so it stays
  false), the hop list is unchanged, no timer is scheduled, the map stays absent, and
  the result does not depend on the hop source, which is not asked.
\<close>

theorem executeTraceroute_not_ready:
  assumes "map_ref st = None"
  shows "executeTraceroute pol fetch st = st\<lparr>toasts := toasts st @ [MapNotReady]\<rparr> \<and>
         isTracing (executeTraceroute pol fetch st) = isTracing st \<and>
         hops (executeTraceroute pol fetch st) = hops st \<and>
         map_ref (executeTraceroute pol fetch st) = None \<and>
         timers (executeTraceroute pol fetch st) = timers st \<and>
         rejections (executeTraceroute pol fetch st) = rejections st"
  using assms by (simp add: executeTraceroute_def)

theorem executeTraceroute_not_ready_witness:
  "map_ref initial_app = None \<and>
   executeTraceroute DupThrows mockTraceroute initial_app =
     initial_app\<lparr>toasts := [MapNotReady]\<rparr> \<and>
   isTracing (executeTraceroute DupThrows mockTraceroute initial_app) = False \<and>
   hops (executeTraceroute DupThrows mockTraceroute initial_app) = []"
proof -
  have h: "map_ref initial_app = None" by (simp add: initial_app_def)
  show ?thesis
    using h executeTraceroute_not_ready [OF h, of DupThrows mockTraceroute]
    by (simp add: initial_app_def)
qed

section \<open>What one call of addNetworkPath draws\<close>

text \<open>
  Claim C7, as stated, fails on a map where a path is already drawn, since
  \<open>addNetworkPath\<close> does not remove it. After a first call with the first two mocked
  hops, a call with all four either raises on the source that is already there and
  places no marker at all (two markers remain), or, with an engine that ignores the
  duplicate, leaves the line geometry at the two vertices of the first call.
\<close>

theorem addNetworkPath_drawn_counterexample:
  "raised (draw_then DupThrows (mockTraceroute ''google.com'')
      (addNetworkPath DupThrows (take 2 (mockTraceroute ''google.com'')) (Some (new_map ''tok'')))) =
     Some (SourceExists ''network-path'') \<and>
   map_option (length \<circ> markers)
     (result_surface (draw_then DupThrows (mockTraceroute ''google.com'')
        (addNetworkPath DupThrows (take 2 (mockTraceroute ''google.com'')) (Some (new_map ''tok''))))) =
     Some 2 \<and>
   map_option (getSource ''network-path'')
     (result_surface (draw_then DupIgnored (mockTraceroute ''google.com'')
        (addNetworkPath DupIgnored (take 2 (mockTraceroute ''google.com'')) (Some (new_map ''tok''))))) =
     Some (Some [(- 74.0060, 40.7128), (- 73.9851, 40.7589)]) \<and>
   length (mockTraceroute ''google.com'') = 4"
  by (simp add: draw_then_def raised_def addNetworkPath_def addSource_def addLayer_def
      getSource_def getLayer_def fitBounds_def bounds_extend_def new_map_def result_surface_def
      mockTraceroute_def)

text \<open>
  Claim C7, amended. On an initialised map that holds no source named
  \<^verbatim>\<open>network-path\<close> (the state in which \<open>executeTraceroute\<close> calls it, after
  \<open>clearNetworkPath\<close>), \<open>addNetworkPath\<close> with the hop list \<open>H\<close> places exactly
  \<open>length H\<close> markers after the ones already there, each at its hop's (longitude,
  latitude), and the vertex sequence of the line geometry is the list of the hops'
  (longitude, latitude) pairs in hop order, so it has \<open>length H\<close> vertices. For a
  non-empty \<open>H\<close> the call returns normally.
\<close>

theorem addNetworkPath_counts:
  assumes "getSource ''network-path'' s = None"
  shows "\<exists>s'. result_surface (addNetworkPath pol H (Some s)) = Some s' \<and>
     length (markers s') = length (markers s) + length H \<and>
     take (length (markers s)) (markers s') = markers s \<and>
     map lngLat (drop (length (markers s)) (markers s')) =
       map (\<lambda>hop. (longitude hop, latitude hop)) H \<and>
     getSource ''network-path'' s' = Some (map (\<lambda>hop. (longitude hop, latitude hop)) H) \<and>
     length (map (\<lambda>hop. (longitude hop, latitude hop)) H) = length H \<and>
     (H \<noteq> [] \<longrightarrow> addNetworkPath pol H (Some s) = Inr (Some s'))"
proof (cases "H = []")
  case True
  then show ?thesis
    using assms unfolding True addNetworkPath_fresh_Nil [OF assms]
    by (simp add: getSource_def map_add_def result_surface_def)
next
  case False
  show ?thesis
    using assms False unfolding addNetworkPath_fresh [OF assms False]
    by (simp add: getSource_def lngLat_hop_markers [simplified] map_add_def result_surface_def)
qed

theorem addNetworkPath_counts_witness:
  "getSource ''network-path'' (new_map ''tok'') = None \<and>
   take 2 (mockTraceroute ''google.com'') \<noteq> [] \<and>
   raised (addNetworkPath DupThrows (take 2 (mockTraceroute ''google.com''))
        (Some (new_map ''tok''))) = None \<and>
   map_option (\<lambda>s. (length (markers s), getSource ''network-path'' s))
     (result_surface (addNetworkPath DupThrows (take 2 (mockTraceroute ''google.com''))
        (Some (new_map ''tok'')))) =
     Some (2, Some [(- 74.0060, 40.7128), (- 73.9851, 40.7589)])"
proof -
  have h: "getSource ''network-path'' (new_map ''tok'') = None"
    by (simp add: getSource_def new_map_def)
  have ne: "take 2 (mockTraceroute ''google.com'') \<noteq> []"
    by (simp add: mockTraceroute_def)
  obtain s' where
    r: "result_surface (addNetworkPath DupThrows (take 2 (mockTraceroute ''google.com''))
        (Some (new_map ''tok''))) = Some s'"
    and n: "length (markers s') = length (markers (new_map ''tok'')) +
        length (take 2 (mockTraceroute ''google.com''))"
    and g: "getSource ''network-path'' s' =
        Some (map (\<lambda>hop. (longitude hop, latitude hop)) (take 2 (mockTraceroute ''google.com'')))"
    and ok: "take 2 (mockTraceroute ''google.com'') \<noteq> [] \<longrightarrow>
        addNetworkPath DupThrows (take 2 (mockTraceroute ''google.com'')) (Some (new_map ''tok'')) =
        Inr (Some s')"
    using addNetworkPath_counts [OF h, of DupThrows "take 2 (mockTraceroute ''google.com'')"]
    by blast
  have "raised (addNetworkPath DupThrows (take 2 (mockTraceroute ''google.com''))
        (Some (new_map ''tok''))) = None"
    using ok ne by (simp add: raised_def)
  moreover have "length (markers s') = 2"
    using n by (simp add: new_map_def mockTraceroute_def)
  moreover have "getSource ''network-path'' s' = Some [(- 74.0060, 40.7128), (- 73.9851, 40.7589)]"
    using g by (simp add: mockTraceroute_def)
  ultimately show ?thesis
    using h ne by (simp only: r option.map) simp
qed

section \<open>Marker styles\<close>

text \<open>
  Claim C6, as stated, fails for a list of one hop: the marker at index \<open>length H - 1\<close>
  is then the marker at index 0, and it gets the origin colour, not the destination
  colour.
\<close>

theorem last_marker_counterexample:
  "map_option (\<lambda>s. background (markers s ! (length (take 1 (mockTraceroute ''google.com'')) - 1)))
     (result_surface (addNetworkPath DupThrows (take 1 (mockTraceroute ''google.com'')) (Some (new_map ''tok'')))) =
     Some origin_style \<and> origin_style \<noteq> destination_style"
proof -
  have h: "getSource ''network-path'' (new_map ''tok'') = None"
    by (simp add: getSource_def new_map_def)
  have ne: "take 1 (mockTraceroute ''google.com'') \<noteq> []"
    by (simp add: mockTraceroute_def)
  show ?thesis
    unfolding addNetworkPath_fresh [OF h ne]
    by (simp add: result_surface_def mockTraceroute_def
        hop_marker_def marker_color_def origin_style_def destination_style_def new_map_def)
qed

text \<open>
  Claim C6, amended. On a map without a \<^verbatim>\<open>network-path\<close> source, \<open>addNetworkPath\<close>
  with the hop list \<open>H\<close> places \<open>length H\<close> markers, and the marker of the hop at index
  \<open>i\<close> has the origin style when \<open>i = 0\<close>, otherwise the destination style when
  \<open>i = length H - 1\<close>, otherwise the relay style. So the last marker has the destination
  style exactly when the list has at least two hops.
\<close>

theorem marker_styles:
  assumes "getSource ''network-path'' s = None" and "i < length H"
  shows "\<exists>s'. addNetworkPath pol H (Some s) = Inr (Some s') \<and>
     length (markers s') = length (markers s) + length H \<and>
     background (markers s' ! (length (markers s) + i)) =
       (if i = 0 then origin_style
        else if i = length H - 1 then destination_style
        else relay_style)"
proof -
  have "marker_color i (length H) =
      (if i = 0 then origin_style
        else if i = length H - 1 then destination_style
        else relay_style)"
    using assms(2)
    by (auto simp: marker_color_def origin_style_def destination_style_def relay_style_def)
  moreover have "(markers s @ map (\<lambda>(j, h). hop_marker (length H) j h) (enumerate 0 H)) !
      (length (markers s) + i) = map (\<lambda>(j, h). hop_marker (length H) j h) (enumerate 0 H) ! i"
    by (rule nth_append_length_plus)
  moreover have ne: "H \<noteq> []"
    using assms(2) by auto
  ultimately show ?thesis
    unfolding addNetworkPath_fresh [OF assms(1) ne]
    using background_hop_markers [OF assms(2), of "length H"] by simp
qed

theorem marker_styles_witness:
  "getSource ''network-path'' (new_map ''tok'') = None \<and>
   (3::nat) < length (mockTraceroute ''google.com'') \<and>
   map_option (\<lambda>s. background (markers s ! 3))
     (result_surface (addNetworkPath DupThrows (mockTraceroute ''google.com'') (Some (new_map ''tok'')))) =
     Some destination_style"
proof -
  have h: "getSource ''network-path'' (new_map ''tok'') = None"
    by (simp add: getSource_def new_map_def)
  have l: "(3::nat) < length (mockTraceroute ''google.com'')"
    by (simp add: mockTraceroute_def)
  obtain s' where
    r: "addNetworkPath DupThrows (mockTraceroute ''google.com'') (Some (new_map ''tok'')) = Inr (Some s')"
    and b: "background (markers s' ! (length (markers (new_map ''tok'')) + 3)) =
       (if (3::nat) = 0 then origin_style
        else if 3 = length (mockTraceroute ''google.com'') - 1 then destination_style
        else relay_style)"
    using marker_styles [OF h l, of DupThrows] by blast
  have "background (markers s' ! 3) = destination_style"
    using b by (simp add: new_map_def mockTraceroute_def)
  then show ?thesis
    using h l by (simp add: r result_surface_def)
qed

text \<open>
  Claim C10. For a list of one hop the single marker gets the origin style and not the
  destination style: the test for index 0 comes first, so index 0 is origin whatever the
  length of the list.
\<close>

theorem single_hop_origin:
  assumes "getSource ''network-path'' s = None"
  shows "\<exists>s'. addNetworkPath pol [h] (Some s) = Inr (Some s') \<and>
     markers s' = markers s @ [hop_marker 1 0 h] \<and>
     background (hop_marker 1 0 h) = origin_style \<and>
     background (hop_marker 1 0 h) \<noteq> destination_style \<and>
     marker_color 0 len = origin_style"
proof -
  have ne: "[h] \<noteq> []" by simp
  show ?thesis
    unfolding addNetworkPath_fresh [OF assms ne]
    by (simp add: hop_marker_def marker_color_def origin_style_def destination_style_def)
qed

theorem single_hop_origin_witness:
  "getSource ''network-path'' (new_map ''tok'') = None \<and>
   map_option (map background \<circ> markers)
     (result_surface (addNetworkPath DupIgnored [mockTraceroute ''google.com'' ! 3] (Some (new_map ''tok'')))) =
     Some [''#00ff00'']"
proof -
  have h: "getSource ''network-path'' (new_map ''tok'') = None"
    by (simp add: getSource_def new_map_def)
  show ?thesis
    using h single_hop_origin [OF h, of DupIgnored "mockTraceroute ''google.com'' ! 3" 1]
    by (auto simp: result_surface_def origin_style_def new_map_def)
qed

section \<open>The empty hop list\<close>

text \<open>
  Claim C2 is not what the code does. \<open>addNetworkPath\<close> has no test for an empty hop
  list: on a new map it adds the source with an empty vertex sequence and the line
  layer, places no marker, and then calls \<^verbatim>\<open>fitBounds\<close> with bounds that were never
  extended, which raises. Both engine behaviours for duplicates give this result. A
  trace whose hop source returns no hop therefore ends with the exception, before
  \<open>isTracing\<close> is set back to false.
\<close>

theorem empty_path_raises:
  "addNetworkPath DupThrows [] (Some (new_map ''tok'')) =
     Inl (EmptyBounds,
          Some \<lparr>accessToken = ''tok'', center = (0, 20), sources = [(''network-path'', [])],
            layers = [(''network-path-line'', ''network-path'')], markers = [],
            fitCalls = []\<rparr>) \<and>
   addNetworkPath DupIgnored [] (Some (new_map ''tok'')) =
     Inl (EmptyBounds,
          Some \<lparr>accessToken = ''tok'', center = (0, 20), sources = [(''network-path'', [])],
            layers = [(''network-path-line'', ''network-path'')], markers = [],
            fitCalls = []\<rparr>) \<and>
   rejections (run DupThrows (\<lambda>target. []) ready_app [TraceClicked]) = [EmptyBounds] \<and>
   isTracing (run DupThrows (\<lambda>target. []) ready_app [TraceClicked]) \<and>
   timers (run DupThrows (\<lambda>target. []) ready_app [TraceClicked]) = []"
  by (simp add: eval_defs ready_app_def)

section \<open>Drawing twice\<close>

text \<open>
  Claim C1, as stated, fails: \<open>addNetworkPath\<close> does not clear. Called twice with the
  four mocked hops on a new map, the second call either raises on the source that is
  already there (an engine that throws on a duplicate), or leaves eight markers where
  one call leaves four (an engine that ignores the duplicate).
\<close>

theorem addNetworkPath_twice_counterexample:
  "raised (redraw_twice DupThrows (mockTraceroute ''google.com'') (Some (new_map ''tok''))) =
     Some (SourceExists ''network-path'') \<and>
   map_option (length \<circ> markers)
     (result_surface (redraw_twice DupIgnored (mockTraceroute ''google.com'') (Some (new_map ''tok'')))) =
     Some 8 \<and>
   map_option (length \<circ> markers)
     (result_surface (addNetworkPath DupIgnored (mockTraceroute ''google.com'') (Some (new_map ''tok'')))) =
     Some 4"
  by (simp add: redraw_twice_def draw_then_def raised_def addNetworkPath_def addSource_def
      addLayer_def getSource_def getLayer_def fitBounds_def bounds_extend_def new_map_def
      result_surface_def mockTraceroute_def)

text \<open>
  Claim C1, amended. The clear is a function of its own, \<open>clearNetworkPath\<close>, which
  \<open>executeTraceroute\<close> calls before it draws. \<open>clearNetworkPath\<close> followed by
  \<open>addNetworkPath\<close> with the hop list \<open>H\<close> leaves, on every map, exactly one
  \<^verbatim>\<open>network-path\<close> source with the vertices of \<open>H\<close>, one \<^verbatim>\<open>network-path-line\<close>
  layer and \<open>length H\<close> markers; running the pair a second time with the same \<open>H\<close>
  leaves the same sources, layers and markers. For a non-empty \<open>H\<close> both runs return
  normally.
\<close>

theorem clear_then_draw_idempotent:
  "\<exists>s1 s2. result_surface (clear_then_draw pol H (Some s)) = Some s1 \<and>
      result_surface (clear_then_draw pol H (Some s1)) = Some s2 \<and>
      overlay s2 = overlay s1 \<and>
      filter (\<lambda>l. fst l = ''network-path'') (sources s1) =
        [(''network-path'', map (\<lambda>hop. (longitude hop, latitude hop)) H)] \<and>
      filter (\<lambda>l. fst l = ''network-path-line'') (layers s1) =
        [(''network-path-line'', ''network-path'')] \<and>
      length (markers s1) = length H \<and>
      (H \<noteq> [] \<longrightarrow>
         clear_then_draw pol H (Some s) = Inr (Some s1) \<and>
         clear_then_draw pol H (Some s1) = Inr (Some s2))"
proof (cases "H = []")
  case True
  show ?thesis
    unfolding True clear_then_draw_Nil
    by (simp add: overlay_def filter_fst_eq_neq result_surface_def)
next
  case False
  show ?thesis
    unfolding clear_then_draw_Some [OF False]
    by (simp add: overlay_def filter_fst_eq_neq result_surface_def)
qed

theorem clear_then_draw_idempotent_witness:
  "mockTraceroute ''google.com'' \<noteq> [] \<and>
   raised (clear_then_draw DupThrows (mockTraceroute ''google.com'') (Some (new_map ''tok''))) = None \<and>
   raised (clear_then_draw DupThrows (mockTraceroute ''google.com'')
     (result_surface
        (clear_then_draw DupThrows (mockTraceroute ''google.com'') (Some (new_map ''tok''))))) = None \<and>
   map_option overlay (result_surface (clear_then_draw DupThrows (mockTraceroute ''google.com'')
     (result_surface
        (clear_then_draw DupThrows (mockTraceroute ''google.com'') (Some (new_map ''tok'')))))) =
   map_option overlay (result_surface
        (clear_then_draw DupThrows (mockTraceroute ''google.com'') (Some (new_map ''tok'')))) \<and>
   map_option (length \<circ> markers) (result_surface
        (clear_then_draw DupThrows (mockTraceroute ''google.com'') (Some (new_map ''tok'')))) =
     Some 4"
proof -
  have ne: "mockTraceroute ''google.com'' \<noteq> []"
    by (simp add: mockTraceroute_def)
  obtain s1 s2 where
    r1: "result_surface (clear_then_draw DupThrows (mockTraceroute ''google.com'')
        (Some (new_map ''tok''))) = Some s1"
    and r2: "result_surface (clear_then_draw DupThrows (mockTraceroute ''google.com'') (Some s1)) =
        Some s2"
    and ov: "overlay s2 = overlay s1"
    and n: "length (markers s1) = length (mockTraceroute ''google.com'')"
    and ok: "mockTraceroute ''google.com'' \<noteq> [] \<longrightarrow>
         clear_then_draw DupThrows (mockTraceroute ''google.com'') (Some (new_map ''tok'')) =
           Inr (Some s1) \<and>
         clear_then_draw DupThrows (mockTraceroute ''google.com'') (Some s1) = Inr (Some s2)"
    using clear_then_draw_idempotent [of DupThrows "mockTraceroute ''google.com''" "new_map ''tok''"]
    by blast
  have "raised (clear_then_draw DupThrows (mockTraceroute ''google.com'') (Some (new_map ''tok''))) =
      None"
    and "raised (clear_then_draw DupThrows (mockTraceroute ''google.com'') (Some s1)) = None"
    using ok ne by (simp_all add: raised_def)
  moreover have "length (markers s1) = 4"
    using n by (simp add: mockTraceroute_def)
  ultimately show ?thesis
    using ne ov by (simp only: r1 r2 option.map) simp
qed

section \<open>The paced reveal\<close>

text \<open>
  Claim C8. Take a state with the map initialised and no trace suspended, and let \<open>H\<close>
  be the non-empty hop sequence of the target. After the click and \<open>k < length H\<close>
  firings of the timer, the hop list is the first \<open>k\<close> hops of \<open>H\<close>, the call is
  suspended on a timer of 1000 ms (so also before the first hop, at \<open>k = 0\<close>),
  \<open>isTracing\<close> is true and the overlay is still the cleared one; the next firing appends
  exactly the hop \<open>H ! k\<close>. After \<open>length H\<close> firings \<open>addNetworkPath\<close> has been
  called with the whole of \<open>H\<close> on the cleared map, the hop list is \<open>H\<close>, and only in
  this state \<open>isTracing\<close> is false again.
\<close>

theorem executeTraceroute_reveal:
  assumes "map_ref st = Some s" and "timers st = []" and "fetch (targetHost st) = H"
    and "k < length H"
  shows "hops (run pol fetch st (TraceClicked # replicate k (TimerFired 0))) = take k H \<and>
     timers (run pol fetch st (TraceClicked # replicate k (TimerFired 0))) =
       [(1000, \<lparr>act_target = targetHost st, mockHops = H, loop_i = k\<rparr>)] \<and>
     isTracing (run pol fetch st (TraceClicked # replicate k (TimerFired 0))) \<and>
     map_ref (run pol fetch st (TraceClicked # replicate k (TimerFired 0))) =
       clearNetworkPath (Some s) \<and>
     hops (run pol fetch st (TraceClicked # replicate (Suc k) (TimerFired 0))) =
       take k H @ [H ! k] \<and>
     (\<exists>s'. addNetworkPath pol H (clearNetworkPath (Some s)) = Inr (Some s') \<and>
        run pol fetch st (TraceClicked # replicate (length H) (TimerFired 0)) =
          st\<lparr>map_ref := Some s', isTracing := False, hops := H,
             toasts := toasts st @ [TracingRoute (targetHost st),
               TracerouteComplete (length H) (targetHost st)],
             timers := []\<rparr>)"
proof -
  note pre = trace_prefix [where fetch = fetch and st = st and pol = pol, OF assms(1-3)]
  have ne: "H \<noteq> []"
    using assms(4) by auto
  obtain s' where d: "clear_then_draw pol H (Some s) = Inr (Some s')"
    by (simp add: clear_then_draw_Some [OF ne])
  note fin = trace_complete [where fetch = fetch and st = st, OF assms(1-3) d]
  have next_hop: "hops (run pol fetch st (TraceClicked # replicate (Suc k) (TimerFired 0))) =
       take k H @ [H ! k]"
  proof (cases "Suc k < length H")
    case True
    then show ?thesis
      by (simp only: pre [OF True]) (simp add: take_Suc_conv_app_nth [OF assms(4)])
  next
    case False
    then have "Suc k = length H" using assms(4) by simp
    then show ?thesis
      using fin take_Suc_conv_app_nth [OF assms(4)] by simp
  qed
  show ?thesis
    using d fin next_hop by (simp add: pre [OF assms(4)] clear_then_draw_def)
qed

theorem executeTraceroute_reveal_witness:
  "map_ref ready_app = Some ((new_map ''tok'')\<lparr>center := (0.1, 20)\<rparr>) \<and>
   timers ready_app = [] \<and>
   (2::nat) < length (mockTraceroute (targetHost ready_app)) \<and>
   map hop_id (hops (run DupThrows mockTraceroute ready_app
      (TraceClicked # replicate 2 (TimerFired 0)))) = [1, 2] \<and>
   map fst (timers (run DupThrows mockTraceroute ready_app
      (TraceClicked # replicate 2 (TimerFired 0)))) = [1000] \<and>
   isTracing (run DupThrows mockTraceroute ready_app
      (TraceClicked # replicate 2 (TimerFired 0))) \<and>
   map hop_id (hops (run DupThrows mockTraceroute ready_app
      (TraceClicked # replicate 3 (TimerFired 0)))) = [1, 2, 3]"
proof -
  have h1: "map_ref ready_app = Some ((new_map ''tok'')\<lparr>center := (0.1, 20)\<rparr>)"
    and h2: "timers ready_app = []"
    by (simp_all add: ready_app_eq initial_app_def)
  have h3: "(2::nat) < length (mockTraceroute (targetHost ready_app))"
    by (simp add: mockTraceroute_def)
  have s3: "Suc 2 = 3" by simp
  show ?thesis
    using h1 h2 h3
      executeTraceroute_reveal [where fetch = mockTraceroute and st = ready_app
        and pol = DupThrows and k = 2, OF h1 h2 refl h3]
    by (simp add: mockTraceroute_def s3)
qed

section \<open>Overlapping and consecutive traces\<close>

text \<open>
  Claim C3, as stated, fails. \<open>executeTraceroute\<close> does not cancel the timer of an
  earlier call. In the schedule \<open>overlapping_traces\<close> the trace to \<^verbatim>\<open>b.example\<close> starts
  while the trace to \<^verbatim>\<open>a.example\<close> waits for its second hop. The next timer firing is
  the first trace appending its second hop to the list the second trace has just reset.
  At the end, with an engine that throws on a duplicate source, the map shows the path
  of the first trace only and the second call has died with the exception; with an
  engine that ignores the duplicate, the map shows the markers of both traces.
\<close>

theorem overlapping_traces_counterexample:
  "marker_hosts (run DupThrows mockTraceroute initial_app overlapping_traces) =
     [''local-gateway'', ''isp-router-1'', ''google-edge'', ''a.example''] \<and>
   map hostname (hops (run DupThrows mockTraceroute initial_app overlapping_traces)) =
     [''local-gateway'', ''isp-router-1'', ''google-edge'', ''a.example'', ''google-edge'',
      ''b.example''] \<and>
   rejections (run DupThrows mockTraceroute initial_app overlapping_traces) =
     [SourceExists ''network-path''] \<and>
   timers (run DupThrows mockTraceroute initial_app overlapping_traces) = [] \<and>
   marker_hosts (run DupIgnored mockTraceroute initial_app overlapping_traces) =
     [''local-gateway'', ''isp-router-1'', ''google-edge'', ''a.example'',
      ''local-gateway'', ''isp-router-1'', ''google-edge'', ''b.example''] \<and>
   timers (run DupIgnored mockTraceroute initial_app overlapping_traces) = [] \<and>
   map hostname (hops (run DupThrows mockTraceroute initial_app (take 7 overlapping_traces))) =
     [''isp-router-1'']"
  by (simp add: overlapping_traces_def eval_defs)

text \<open>
  Claim C3, amended. What keeps two traces apart is the Trace Route button, which is
  disabled while \<open>isTracing\<close> is true, and \<open>isTracing\<close> is true in every state of a
  trace that runs on its own until its last hop is appended. When trace B (to the target
  \<open>tB\<close>) is started after trace A is over, both with a hop list that is not empty (as
  every list of \<open>mockTraceroute\<close> is), the final overlay is the result of clearing
  A's overlay and drawing B's hops: its markers and line geometry are those of B's hop
  list only, the hop list is B's, and no call is left suspended.
\<close>

theorem sequential_traces:
  assumes "map_ref st = Some s" and "timers st = []" and "fetch (targetHost st) = HA"
    and "fetch tB = HB" and "HA \<noteq> []" and "HB \<noteq> []"
  shows "\<exists>sA sB.
     clear_then_draw pol HA (Some s) = Inr (Some sA) \<and>
     clear_then_draw pol HB (Some sA) = Inr (Some sB) \<and>
     (\<forall>k<length HA.
        trace_button_disabled (run pol fetch st (TraceClicked # replicate k (TimerFired 0)))) \<and>
     map_ref (run pol fetch st
        ((TraceClicked # replicate (length HA) (TimerFired 0)) @
         TargetEdited tB # TraceClicked # replicate (length HB) (TimerFired 0))) = Some sB \<and>
     markers sB = map (\<lambda>(j, h). hop_marker (length HB) j h) (enumerate 0 HB) \<and>
     getSource ''network-path'' sB = Some (map (\<lambda>hop. (longitude hop, latitude hop)) HB) \<and>
     hops (run pol fetch st
        ((TraceClicked # replicate (length HA) (TimerFired 0)) @
         TargetEdited tB # TraceClicked # replicate (length HB) (TimerFired 0))) = HB \<and>
     timers (run pol fetch st
        ((TraceClicked # replicate (length HA) (TimerFired 0)) @
         TargetEdited tB # TraceClicked # replicate (length HB) (TimerFired 0))) = [] \<and>
     \<not> isTracing (run pol fetch st
        ((TraceClicked # replicate (length HA) (TimerFired 0)) @
         TargetEdited tB # TraceClicked # replicate (length HB) (TimerFired 0)))"
proof -
  obtain sA where dA: "clear_then_draw pol HA (Some s) = Inr (Some sA)"
    by (simp add: clear_then_draw_Some [OF assms(5)])
  obtain sB where dB: "clear_then_draw pol HB (Some sA) = Inr (Some sB)"
    by (simp add: clear_then_draw_Some [OF assms(6)])
  define stA where "stA = run pol fetch st (TraceClicked # replicate (length HA) (TimerFired 0))"
  have stA: "stA = st\<lparr>map_ref := Some sA, isTracing := False, hops := HA,
        toasts := toasts st @ [TracingRoute (targetHost st),
          TracerouteComplete (length HA) (targetHost st)],
        timers := []\<rparr>"
    unfolding stA_def by (rule trace_complete [where fetch = fetch, OF assms(1-3) dA])
  define stB where "stB = stA\<lparr>targetHost := tB\<rparr>"
  have b1: "map_ref stB = Some sA" and b2: "timers stB = []" and b3: "fetch (targetHost stB) = HB"
    using assms(4) by (simp_all add: stB_def stA)
  have fin: "run pol fetch st
        ((TraceClicked # replicate (length HA) (TimerFired 0)) @
         TargetEdited tB # TraceClicked # replicate (length HB) (TimerFired 0)) =
      stB\<lparr>map_ref := Some sB, isTracing := False, hops := HB,
        toasts := toasts stB @ [TracingRoute (targetHost stB),
          TracerouteComplete (length HB) (targetHost stB)],
        timers := []\<rparr>"
    unfolding run_append stA_def [symmetric]
    by (simp only: run_Cons [of _ _ _ "TargetEdited tB"] step.simps stB_def [symmetric]
        trace_complete [where fetch = fetch, OF b1 b2 b3 dB])
  have dis: "\<forall>k<length HA.
        trace_button_disabled (run pol fetch st (TraceClicked # replicate k (TimerFired 0)))"
    by (simp add: trace_prefix [where fetch = fetch and st = st, OF assms(1-3)]
        trace_button_disabled_def)
  have mk: "markers sB = map (\<lambda>(j, h). hop_marker (length HB) j h) (enumerate 0 HB)"
    using dB by (auto simp: clear_then_draw_Some [OF assms(6)])
  have src: "getSource ''network-path'' sB = Some (map (\<lambda>hop. (longitude hop, latitude hop)) HB)"
    using dB by (auto simp: clear_then_draw_Some [OF assms(6)] getSource_def map_add_def
        map_of_filter_other)
  have "map_ref (stB\<lparr>map_ref := Some sB, isTracing := False, hops := HB,
        toasts := toasts stB @ [TracingRoute (targetHost stB),
          TracerouteComplete (length HB) (targetHost stB)],
        timers := []\<rparr>) = Some sB"
    by simp
  then show ?thesis
    unfolding fin using dA dB dis mk src by simp
qed

theorem sequential_traces_witness:
  "map_ref ready_app = Some ((new_map ''tok'')\<lparr>center := (0.1, 20)\<rparr>) \<and>
   timers ready_app = [] \<and>
   mockTraceroute (targetHost ready_app) \<noteq> [] \<and>
   mockTraceroute ''b.example'' \<noteq> [] \<and>
   marker_hosts (run DupThrows mockTraceroute ready_app
        ((TraceClicked # replicate (length (mockTraceroute (targetHost ready_app))) (TimerFired 0)) @
         TargetEdited ''b.example'' # TraceClicked #
         replicate (length (mockTraceroute ''b.example'')) (TimerFired 0))) =
     [''local-gateway'', ''isp-router-1'', ''google-edge'', ''b.example'']"
proof -
  have h1: "map_ref ready_app = Some ((new_map ''tok'')\<lparr>center := (0.1, 20)\<rparr>)"
    and h2: "timers ready_app = []"
    by (simp_all add: ready_app_eq initial_app_def)
  have n1: "mockTraceroute (targetHost ready_app) \<noteq> []"
    and n2: "mockTraceroute ''b.example'' \<noteq> []"
    by (simp_all add: mockTraceroute_def)
  obtain sB where
    m: "map_ref (run DupThrows mockTraceroute ready_app
        ((TraceClicked # replicate (length (mockTraceroute (targetHost ready_app))) (TimerFired 0)) @
         TargetEdited ''b.example'' # TraceClicked #
         replicate (length (mockTraceroute ''b.example'')) (TimerFired 0))) = Some sB"
    and k: "markers sB = map (\<lambda>(j, h). hop_marker (length (mockTraceroute ''b.example'')) j h)
        (enumerate 0 (mockTraceroute ''b.example''))"
    using sequential_traces [where fetch = mockTraceroute and st = ready_app and pol = DupThrows
        and tB = "''b.example''", OF h1 h2 refl refl n1 n2]
    by blast
  have "marker_hosts (run DupThrows mockTraceroute ready_app
        ((TraceClicked # replicate (length (mockTraceroute (targetHost ready_app))) (TimerFired 0)) @
         TargetEdited ''b.example'' # TraceClicked #
         replicate (length (mockTraceroute ''b.example'')) (TimerFired 0))) =
      map (\<lambda>m. popup_hostname (marker_popup m)) (markers sB)"
    by (simp only: marker_hosts_def m option.case)
  also have "\<dots> = [''local-gateway'', ''isp-router-1'', ''google-edge'', ''b.example'']"
    by (simp add: k mockTraceroute_def hop_marker_def)
  finally show ?thesis
    using h1 h2 n1 n2 by simp
qed

section \<open>The idle rotation\<close>

text \<open>
  Claim C4 is not what the code does. The \<open>rotateCamera\<close> closure tests the value of
  \<open>isTracing\<close> it closed over when \<open>initializeMap\<close> created it, which is false. After
  the map is initialised and a trace is started, \<open>isTracing\<close> is true, yet the closure
  is still scheduled, and the next animation frame moves the camera centre from 0.1 to
  0.2 degrees of longitude and schedules the closure again.
\<close>

theorem rotation_ignores_trace:
  "isTracing (run DupThrows mockTraceroute initial_app [InitializeMap ''tok'', TraceClicked]) \<and>
   frames (run DupThrows mockTraceroute initial_app [InitializeMap ''tok'', TraceClicked]) = [False] \<and>
   map_option center (map_ref (run DupThrows mockTraceroute initial_app
      [InitializeMap ''tok'', TraceClicked])) = Some (0.1, 20) \<and>
   isTracing (run DupThrows mockTraceroute initial_app
      [InitializeMap ''tok'', TraceClicked, AnimationFrame]) \<and>
   frames (run DupThrows mockTraceroute initial_app
      [InitializeMap ''tok'', TraceClicked, AnimationFrame]) = [False] \<and>
   map_option center (map_ref (run DupThrows mockTraceroute initial_app
      [InitializeMap ''tok'', TraceClicked, AnimationFrame])) = Some (0.2, 20)"
  by (simp add: eval_defs)

end
